theory Spec2Isabelle
  imports Complex_Main "HOL-Library.Sublist"
begin

section \<open>JavaScript values\<close>

text \<open>
  The values the code reads back from the persisted store and from the release source
  are untyped JavaScript values. Numbers that come out of a JSON file or a JSON response
  are finite, so a rational stands for them; \<open>JUndefined\<close> is what a missing key or a
  missing property reads as.
\<close>

datatype jsval =
    JUndefined
  | JNull
  | JBool bool
  | JNum rat
  | JStr string
  | JArr "jsval list"
  | JObj "(string \<times> jsval) list"

text \<open>JavaScript truthiness, as tested by \<open>!v\<close> and \<open>if (v)\<close>.\<close>

fun truthy :: "jsval \<Rightarrow> bool" where
  "truthy JUndefined = False"
| "truthy JNull = False"
| "truthy (JBool b) = b"
| "truthy (JNum n) = (n \<noteq> 0)"
| "truthy (JStr s) = (s \<noteq> [])"
| "truthy (JArr xs) = True"
| "truthy (JObj kvs) = True"

text \<open>
  \<open>v !== s\<close> where \<open>s\<close> is a string: strict inequality holds unless \<open>v\<close> is
  the very same string (no coercion; an object or array is never equal to a string).
\<close>

definition strict_neq_string :: "jsval \<Rightarrow> string \<Rightarrow> bool" where
  "strict_neq_string v s = (v \<noteq> JStr s)"

text \<open>An exception or a rejected promise; it carries the text \<open>`${err}`\<close> renders.\<close>

datatype js_error = JsError string


section \<open>Update notifier: \<open>fetchRelease\<close> in \<open>main.ts\<close>\<close>

text \<open>
  \<open>response.data\<close> of a release request: the three properties the code reads.
\<close>

record release_data =
  name :: jsval
  html_url :: jsval
  body :: jsval

text \<open>
  \<open>octokit.request(route, {owner, repo})\<close>: the release source is a collaborator; a
  rejected request is \<open>Inl\<close>.
\<close>

type_synonym octokit = "string \<Rightarrow> string \<Rightarrow> string \<Rightarrow> js_error + release_data"

text \<open>
  What a pass does to the outside, in the order it does it: requests to the release
  source, messages sent to the window with \<open>mainWindow.webContents.send\<close>, writes to the
  persisted store and \<open>console.log\<close> output. \<open>mainWindow\<close> is the window whose
  \<open>dom-ready\<close> event started the pass.
\<close>

datatype effect =
    Request string string string
  | Send string jsval
  | StoreSet string jsval
  | ConsoleLog jsval

text \<open>
  The persisted store (\<open>electron-store\<close>, a JSON file of key/value pairs) and the
  effects so far.
\<close>

record notifier_state =
  store :: "string \<rightharpoonup> jsval"
  effects :: "effect list"

definition store_get :: "notifier_state \<Rightarrow> string \<Rightarrow> jsval" where
  "store_get s k = (case store s k of None \<Rightarrow> JUndefined | Some v \<Rightarrow> v)"

definition store_set :: "string \<Rightarrow> jsval \<Rightarrow> notifier_state \<Rightarrow> notifier_state" where
  "store_set k v s = s\<lparr>store := (store s)(k \<mapsto> v), effects := effects s @ [StoreSet k v]\<rparr>"

definition webContents_send :: "string \<Rightarrow> jsval \<Rightarrow> notifier_state \<Rightarrow> notifier_state" where
  "webContents_send channel payload s = s\<lparr>effects := effects s @ [Send channel payload]\<rparr>"

definition console_log :: "jsval \<Rightarrow> notifier_state \<Rightarrow> notifier_state" where
  "console_log v s = s\<lparr>effects := effects s @ [ConsoleLog v]\<rparr>"

definition request :: "octokit \<Rightarrow> string \<Rightarrow> notifier_state
    \<Rightarrow> (js_error + release_data) \<times> notifier_state" where
  "request oc route s =
     (oc route ''ashu8912'' ''update-testing'',
      s\<lparr>effects := effects s @ [Request route ''ashu8912'' ''update-testing'']\<rparr>)"

definition latest_route :: string where
  "latest_route = ''GET /repos/{owner}/{repo}/releases/latest''"

definition tag_route :: "string \<Rightarrow> string" where
  "tag_route appVersion = ''GET /repos/{owner}/{repo}/releases/tags/v'' @ appVersion"

text \<open>
  One update-check pass. The result is the exception that ended the pass early, if any,
  and the state the pass left behind (what was sent before a failed request stays sent).
\<close>

definition fetchRelease :: "octokit \<Rightarrow> string \<Rightarrow> notifier_state
    \<Rightarrow> js_error option \<times> notifier_state" where
  "fetchRelease oc appVersion s =
     (case request oc latest_route s of
        (Inl e, s1) \<Rightarrow> (Some e, s1)
      | (Inr response, s1) \<Rightarrow>
          let s2 = (if strict_neq_string (name response) appVersion
                    then webContents_send ''update_available''
                           (JObj [(''downloadURL'', html_url response)]) s1
                    else s1);
              storedAppVersion = store_get s2 ''app_version'';
              s3 = console_log storedAppVersion s2
          in if \<not> truthy storedAppVersion
             then (None, store_set ''app_version'' (JStr appVersion) s3)
             else if strict_neq_string storedAppVersion appVersion
             then (case request oc (tag_route appVersion) s3 of
                     (Inl e, s4) \<Rightarrow> (Some e, s4)
                   | (Inr releaseTagResponse, s4) \<Rightarrow>
                       (None,
                        store_set ''app_version'' (JStr appVersion)
                          (webContents_send ''show_release_notes''
                             (JObj [(''releaseNotes'', body releaseTagResponse)]) s4)))
             else (None, s3))"

text \<open>The payloads sent on one channel, oldest first.\<close>

definition sent_on :: "string \<Rightarrow> effect list \<Rightarrow> jsval list" where
  "sent_on channel es = concat (map (\<lambda>e. case e of Send c p \<Rightarrow> (if c = channel then [p] else [])
                                             | _ \<Rightarrow> []) es)"

subsection \<open>Passes that overlap\<close>

text \<open>
  \<open>fetchRelease()\<close> is called, and not awaited, on every \<open>dom-ready\<close> of the window; it
  gives way at each \<open>await\<close>. So a pass runs in up to three pieces, and pieces of other
  passes over the same store can run in between: up to the first \<open>await\<close> (the request for
  the latest release is made), from the answer to that request up to the second \<open>await\<close>
  or the end, and from the answer to the request for the tagged release to the end.
\<close>

datatype stage = AwaitingLatest | AwaitingTag | Finished "js_error option"

definition fetchRelease_begin :: "octokit \<Rightarrow> notifier_state \<Rightarrow> notifier_state" where
  "fetchRelease_begin oc s = snd (request oc latest_route s)"

definition fetchRelease_on_latest :: "octokit \<Rightarrow> string \<Rightarrow> notifier_state
    \<Rightarrow> stage \<times> notifier_state" where
  "fetchRelease_on_latest oc appVersion s1 =
     (case oc latest_route ''ashu8912'' ''update-testing'' of
        Inl e \<Rightarrow> (Finished (Some e), s1)
      | Inr response \<Rightarrow>
          let s2 = (if strict_neq_string (name response) appVersion
                    then webContents_send ''update_available''
                           (JObj [(''downloadURL'', html_url response)]) s1
                    else s1);
              storedAppVersion = store_get s2 ''app_version'';
              s3 = console_log storedAppVersion s2
          in if \<not> truthy storedAppVersion
             then (Finished None, store_set ''app_version'' (JStr appVersion) s3)
             else if strict_neq_string storedAppVersion appVersion
             then (AwaitingTag, snd (request oc (tag_route appVersion) s3))
             else (Finished None, s3))"

definition fetchRelease_on_tag :: "octokit \<Rightarrow> string \<Rightarrow> notifier_state
    \<Rightarrow> stage \<times> notifier_state" where
  "fetchRelease_on_tag oc appVersion s4 =
     (case oc (tag_route appVersion) ''ashu8912'' ''update-testing'' of
        Inl e \<Rightarrow> (Finished (Some e), s4)
      | Inr releaseTagResponse \<Rightarrow>
          (Finished None,
           store_set ''app_version'' (JStr appVersion)
             (webContents_send ''show_release_notes''
                (JObj [(''releaseNotes'', body releaseTagResponse)]) s4)))"

text \<open>
  The store with its effects, and the passes begun so far, each with its release source,
  the version of the application that runs it, and how far it has got.
\<close>

record world =
  shared :: notifier_state
  passes :: "(octokit \<times> string \<times> stage) list"

text \<open>
  What can happen next: a \<open>dom-ready\<close> begins a new pass, or the request that pass \<open>i\<close>
  waits for is answered and the pass runs its next piece.
\<close>

datatype action = DomReady octokit string | Answered nat

fun resume :: "octokit \<times> string \<times> stage \<Rightarrow> notifier_state
    \<Rightarrow> (octokit \<times> string \<times> stage) \<times> notifier_state" where
  "resume (oc, appVersion, AwaitingLatest) s =
     (case fetchRelease_on_latest oc appVersion s of (st, s') \<Rightarrow> ((oc, appVersion, st), s'))"
| "resume (oc, appVersion, AwaitingTag) s =
     (case fetchRelease_on_tag oc appVersion s of (st, s') \<Rightarrow> ((oc, appVersion, st), s'))"
| "resume (oc, appVersion, Finished r) s = ((oc, appVersion, Finished r), s)"

fun act :: "action \<Rightarrow> world \<Rightarrow> world" where
  "act (DomReady oc appVersion) w =
     \<lparr>shared = fetchRelease_begin oc (shared w),
      passes = passes w @ [(oc, appVersion, AwaitingLatest)]\<rparr>"
| "act (Answered i) w =
     (if i < length (passes w)
      then (case resume (passes w ! i) (shared w) of
              (p, s') \<Rightarrow> \<lparr>shared = s', passes = (passes w)[i := p]\<rparr>)
      else w)"

fun interleave :: "action list \<Rightarrow> world \<Rightarrow> world" where
  "interleave [] w = w"
| "interleave (a # as) w = interleave as (act a w)"

text \<open>
  The schedule in which no two passes overlap: each pass is begun and is answered until
  it has finished before the next is begun. \<open>i\<close> is the number of passes begun before.
\<close>

fun one_after_another :: "nat \<Rightarrow> (octokit \<times> string) list \<Rightarrow> action list" where
  "one_after_another i [] = []"
| "one_after_another i ((oc, appVersion) # ps) =
     [DomReady oc appVersion, Answered i, Answered i] @ one_after_another (Suc i) ps"

text \<open>How many \<open>show_release_notes\<close> messages have been sent.\<close>

definition notes_sent :: "notifier_state \<Rightarrow> nat" where
  "notes_sent s = length (sent_on ''show_release_notes'' (effects s))"


section \<open>Server process supervisor: \<open>main.ts\<close>\<close>

subsection \<open>What the supervisor sees of the process and of the operating system\<close>

text \<open>
  The handle \<open>spawn\<close> gives back. \<open>pid\<close> is \<open>undefined\<close> (\<open>None\<close>) on a handle
  whose process could not be started.
\<close>

record child_process =
  pid :: "nat option"

record spawn_options =
  shell :: bool
  detached :: bool

text \<open>
  The process the application runs in: \<open>process.platform\<close>,
  \<open>process.resourcesPath\<close>, \<open>process.env.ELECTRON_DEV\<close>, the parsed command-line
  flags, the two library functions whose results the code uses, \<open>path.join\<close> and
  \<open>spawn\<close>, and what the operating system answers to a signal. \<open>spawn\<close> either
  throws (\<open>Inl\<close>) or returns a handle. \<open>kill_result n\<close> is the error with which a
  signal sent to \<open>n\<close> (a process id, or a negated process-group id) fails, such as
  \<open>ESRCH\<close> when nothing of that id is left, or \<open>None\<close> when the signal is delivered.
\<close>

record process_env =
  platform :: string
  resourcesPath :: string
  ELECTRON_DEV :: "string option"
  isHeadlessMode :: bool
  disableGPU :: bool
  path_join :: "string \<Rightarrow> string \<Rightarrow> string"
  spawn :: "string \<Rightarrow> string list \<Rightarrow> spawn_options \<Rightarrow> js_error + child_process"
  kill_result :: "int \<Rightarrow> js_error option"

text \<open>A chunk read from the child's output: a \<open>Buffer\<close>, or a string on a stream with
  an encoding. Both are given by their bytes.\<close>

datatype chunk = BufferChunk string | StringChunk string

fun chunk_text :: "chunk \<Rightarrow> string" where
  "chunk_text (BufferChunk bs) = bs"
| "chunk_text (StringChunk s) = s"

text \<open>\<open>data\<close> in a condition: every object is truthy, a string unless it is empty.\<close>

fun chunk_truthy :: "chunk \<Rightarrow> bool" where
  "chunk_truthy (BufferChunk bs) = True"
| "chunk_truthy (StringChunk s) = (s \<noteq> [])"

text \<open>\<open>data.indexOf\<close> in a condition: both kinds of chunk have the method.\<close>

fun has_indexOf :: "chunk \<Rightarrow> bool" where
  "has_indexOf (BufferChunk bs) = True"
| "has_indexOf (StringChunk s) = True"

text \<open>
  \<open>hay.indexOf(needle)\<close>: the position of the first occurrence of \<open>needle\<close>, counted
  from \<open>i\<close> at the head of \<open>hay\<close>, or \<open>-1\<close> when there is none.
\<close>

fun indexOf_from :: "nat \<Rightarrow> string \<Rightarrow> string \<Rightarrow> int" where
  "indexOf_from i [] needle = (if needle = [] then int i else - 1)"
| "indexOf_from i (c # cs) needle =
     (if prefix needle (c # cs) then int i else indexOf_from (Suc i) cs needle)"

definition indexOf :: "chunk \<Rightarrow> string \<Rightarrow> int" where
  "indexOf data needle = indexOf_from 0 (chunk_text data) needle"

text \<open>
  What a template literal makes of an exit code (an integer or \<open>null\<close>) and of a
  signal name (a string or \<open>null\<close>). The decimal digits of a number are produced from
  the last one on.
\<close>

definition digit :: "nat \<Rightarrow> char" where
  "digit d = ''0123456789'' ! d"

fun decimal_acc :: "nat \<Rightarrow> string \<Rightarrow> string" where
  "decimal_acc n acc =
     (if n < 10 then digit n # acc else decimal_acc (n div 10) (digit (n mod 10) # acc))"

declare decimal_acc.simps [simp del]

definition render_number :: "int \<Rightarrow> string" where
  "render_number i =
     (if i < 0 then CHR ''-'' # decimal_acc (nat (- i)) [] else decimal_acc (nat i) [])"

definition render_code :: "int option \<Rightarrow> string" where
  "render_code code = (case code of None \<Rightarrow> ''null'' | Some n \<Rightarrow> render_number n)"

definition render_signal :: "string option \<Rightarrow> string" where
  "render_signal signal = (case signal of None \<Rightarrow> ''null'' | Some s \<Rightarrow> s)"

fun error_text :: "js_error \<Rightarrow> string" where
  "error_text (JsError msg) = msg"

subsection \<open>Module state\<close>

datatype level = LogInfo | LogError

text \<open>\<open>mainWindow\<close>: declared without a value, then a window or \<open>null\<close>.\<close>

datatype window_ref = WUndefined | WNull | Window nat

text \<open>
  Calls out of the module, in order, whether they return or throw. The argument of
  \<open>ProcessKill\<close> is the number passed to \<open>process.kill\<close>; \<open>None\<close> is \<open>NaN\<close>, which
  \<open>-serverProcess.pid\<close> is when the handle has no pid.
\<close>

datatype os_call =
    Spawn string "string list" spawn_options
  | ProcessKill "int option"
  | StdinDestroy child_process
  | ChildKill child_process
  | AppQuit
  | OpenBrowser string
  | NewBrowserWindow nat
  | DisableHardwareAcceleration

text \<open>
  The module-level variables \<open>serverProcess\<close>, \<open>intentionalQuit\<close> and
  \<open>serverProcessQuit\<close> (all three declared without a value: \<open>None\<close>; \<open>serverProcess\<close>
  is only ever tested with \<open>!serverProcess\<close>, so \<open>null\<close> and \<open>undefined\<close> are both
  \<open>None\<close>), the variables \<open>mainWindow\<close> and \<open>isDev\<close> of \<open>startElecron\<close>, and which
  handlers are registered: those of \<open>startElecron\<close> (\<open>ready\<close>, \<open>activate\<close>), and the
  one-time handler of \<open>window-all-closed\<close>.

  The rest is bookkeeping: the log (\<open>electron-log\<close>), the calls made, the exceptions
  no handler caught, the number of windows created, and every process that
  \<open>attachServerEventHandlers\<close> was given, each with whether its \<open>close\<close> event was seen.
\<close>

record app_state =
  serverProcess :: "child_process option"
  intentionalQuit :: "bool option"
  serverProcessQuit :: "bool option"
  mainWindow :: window_ref
  isDev :: bool
  started :: bool
  quit_on_all_closed :: bool
  log_entries :: "(level \<times> string) list"
  calls :: "os_call list"
  uncaught :: "js_error list"
  windows_created :: nat
  sessions :: "(child_process \<times> bool) list"

text \<open>A boolean variable in a condition: \<open>undefined\<close> is falsy.\<close>

fun is_true :: "bool option \<Rightarrow> bool" where
  "is_true None = False"
| "is_true (Some b) = b"

definition log_info :: "string \<Rightarrow> app_state \<Rightarrow> app_state" where
  "log_info msg st = st\<lparr>log_entries := log_entries st @ [(LogInfo, msg)]\<rparr>"

definition log_error :: "string \<Rightarrow> app_state \<Rightarrow> app_state" where
  "log_error msg st = st\<lparr>log_entries := log_entries st @ [(LogError, msg)]\<rparr>"

definition call :: "os_call \<Rightarrow> app_state \<Rightarrow> app_state" where
  "call c st = st\<lparr>calls := calls st @ [c]\<rparr>"

text \<open>\<open>-serverProcess.pid\<close>.\<close>

fun neg_pid :: "nat option \<Rightarrow> int option" where
  "neg_pid None = None"
| "neg_pid (Some n) = Some (- int n)"

text \<open>
  \<open>process.kill(n)\<close>: the exception it throws, or \<open>None\<close> when it returns. It
  throws a \<open>TypeError\<close> when \<open>n\<close> is \<open>NaN\<close>, and the error of the operating system
  when the signal cannot be delivered.
\<close>

definition process_kill :: "process_env \<Rightarrow> int option \<Rightarrow> js_error option" where
  "process_kill env target =
     (case target of
        None \<Rightarrow> Some (JsError ''TypeError [ERR_INVALID_ARG_TYPE]: The pid argument is NaN'')
      | Some n \<Rightarrow> kill_result env n)"

subsection \<open>\<open>startServer\<close> and \<open>quitServerProcess\<close>\<close>

definition startServer :: "process_env \<Rightarrow> string list \<Rightarrow> app_state
    \<Rightarrow> (js_error + child_process) \<times> app_state" where
  "startServer env flags st =
     (let serverFilePath = path_join env (resourcesPath env) ''./server'';
          options = \<lparr>shell = True, detached = False\<rparr>;
          options = (if platform env \<noteq> ''win32'' then options\<lparr>detached := True\<rparr> else options)
      in (spawn env serverFilePath flags options, call (Spawn serverFilePath flags options) st))"

text \<open>
  \<open>quitServerProcess\<close>. Nothing catches an exception of \<open>process.kill\<close>: the
  handler ends there, with \<open>intentionalQuit\<close> set and \<open>serverProcess\<close> as it was.
\<close>

definition quitServerProcess :: "process_env \<Rightarrow> app_state \<Rightarrow> app_state" where
  "quitServerProcess env st =
     (case serverProcess st of
        None \<Rightarrow> log_error ''server process already not running'' st
      | Some p \<Rightarrow>
          if is_true (serverProcessQuit st)
          then log_error ''server process already not running'' st
          else
            let st = st\<lparr>intentionalQuit := Some True\<rparr>;
                st = log_info ''stopping server process...'' st;
                thrown = (if platform env \<noteq> ''win32''
                          then process_kill env (neg_pid (pid p)) else None);
                st = (if platform env \<noteq> ''win32''
                      then call (ProcessKill (neg_pid (pid p))) st else st)
            in (case thrown of
                  Some e \<Rightarrow> st\<lparr>uncaught := uncaught st @ [e]\<rparr>
                | None \<Rightarrow>
                    (let st = call (StdinDestroy p) st;
                         st = call (ChildKill p) st
                     in st\<lparr>serverProcess := None\<rparr>)))"

subsection \<open>The handlers of \<open>attachServerEventHandlers\<close>\<close>

definition server_on_error :: "js_error \<Rightarrow> app_state \<Rightarrow> app_state" where
  "server_on_error err st = log_error (''server process failed to start: '' @ error_text err) st"

definition stdout_on_data :: "chunk \<Rightarrow> app_state \<Rightarrow> app_state" where
  "stdout_on_data data st = log_info (''server process stdout: '' @ chunk_text data) st"

definition stderr_on_data :: "chunk \<Rightarrow> app_state \<Rightarrow> app_state" where
  "stderr_on_data data st =
     (let sterrMessage = ''server process stderr: '' @ chunk_text data
      in if chunk_truthy data \<and> has_indexOf data \<and> indexOf data ''Requesting'' \<noteq> - 1
         then log_info sterrMessage st
         else log_error sterrMessage st)"

definition server_on_close :: "int option \<Rightarrow> string option \<Rightarrow> app_state \<Rightarrow> app_state" where
  "server_on_close code signal st =
     (let closeMessage = ''server process process exited with code:'' @ render_code code
                           @ '' signal:'' @ render_signal signal;
          st = (if \<not> is_true (intentionalQuit st)
                then log_error closeMessage st
                else log_info closeMessage st)
      in st\<lparr>serverProcessQuit := Some True\<rparr>)"

text \<open>Registering the four handlers on a process: from now on its events are handled.\<close>

definition attachServerEventHandlers :: "child_process \<Rightarrow> app_state \<Rightarrow> app_state" where
  "attachServerEventHandlers p st = st\<lparr>sessions := sessions st @ [(p, False)]\<rparr>"

subsection \<open>Start-up, windows and events\<close>

text \<open>
  \<open>createWindow\<close>, as far as the supervisor is concerned: a new window becomes
  \<open>mainWindow\<close>, and outside development mode a server is started. An exception of
  \<open>startServer\<close> leaves the handler at that point.
\<close>

definition createWindow :: "process_env \<Rightarrow> app_state \<Rightarrow> app_state" where
  "createWindow env st =
     (let st = call (NewBrowserWindow (windows_created st)) st;
          st = st\<lparr>mainWindow := Window (windows_created st),
                   windows_created := Suc (windows_created st)\<rparr>
      in if \<not> isDev st
         then (case startServer env [] st of
                 (Inl e, st) \<Rightarrow> st\<lparr>uncaught := uncaught st @ [e]\<rparr>
               | (Inr p, st) \<Rightarrow> attachServerEventHandlers p (st\<lparr>serverProcess := Some p\<rparr>))
         else st)"

text \<open>
  \<open>startElecron\<close>, without the menu: it reads \<open>isDev\<close> and registers the handlers
  of \<open>ready\<close>, \<open>activate\<close> and, for one time, \<open>window-all-closed\<close>.
\<close>

definition startElecron :: "process_env \<Rightarrow> app_state \<Rightarrow> app_state" where
  "startElecron env st =
     (let st = log_info ''App starting...'' st;
          st = st\<lparr>isDev := (case ELECTRON_DEV env of None \<Rightarrow> False | Some s \<Rightarrow> s \<noteq> [])\<rparr>;
          st = (if disableGPU env
                then call DisableHardwareAcceleration
                       (log_info ''Disabling GPU hardware acceleration.'' st)
                else st)
      in st\<lparr>started := True, quit_on_all_closed := True\<rparr>)"

definition initial_state :: app_state where
  "initial_state =
     \<lparr>serverProcess = None, intentionalQuit = None, serverProcessQuit = None,
      mainWindow = WUndefined, isDev = False, started = False, quit_on_all_closed = False,
      log_entries = [], calls = [], uncaught = [], windows_created = 0, sessions = []\<rparr>"

text \<open>Loading the module: the last statement of \<open>main.ts\<close>.\<close>

definition main :: "process_env \<Rightarrow> app_state" where
  "main env =
     (if isHeadlessMode env
      then (case startServer env
                   [''-html-static-dir'', path_join env (resourcesPath env) ''./frontend'']
                   initial_state of
              (Inl e, st) \<Rightarrow> st\<lparr>uncaught := uncaught st @ [e]\<rparr>
            | (Inr p, st) \<Rightarrow>
                call (OpenBrowser ''http://localhost:4466'')
                  (attachServerEventHandlers p (st\<lparr>serverProcess := Some p\<rparr>)))
      else startElecron env initial_state)"

text \<open>
  The events the registered handlers react to: \<open>ready\<close>, \<open>activate\<close>,
  \<open>window-all-closed\<close> and \<open>quit\<close> of the application, \<open>closed\<close> of a window made by
  \<open>createWindow\<close>, and the four events of a child process, which name the process by
  its position in \<open>sessions\<close>. \<open>step\<close> is what the handlers do when an event
  reaches them; which events reach them, and when, is the runtime's matter (below).
\<close>

datatype event =
    AppReady
  | Activate
  | WindowClosed
  | WindowAllClosed
  | Quit
  | ChildError nat js_error
  | ChildStdout nat chunk
  | ChildStderr nat chunk
  | ChildClose nat "int option" "string option"

fun step :: "process_env \<Rightarrow> event \<Rightarrow> app_state \<Rightarrow> app_state" where
  "step env AppReady st = (if started st then createWindow env st else st)"
| "step env Activate st =
     (if started st \<and> mainWindow st = WNull then createWindow env st else st)"
| "step env WindowClosed st =
     (if 0 < windows_created st then st\<lparr>mainWindow := WNull\<rparr> else st)"
| "step env WindowAllClosed st =
     (if quit_on_all_closed st then call AppQuit (st\<lparr>quit_on_all_closed := False\<rparr>) else st)"
| "step env Quit st = quitServerProcess env st"
| "step env (ChildError i err) st =
     (if i < length (sessions st) then server_on_error err st else st)"
| "step env (ChildStdout i data) st =
     (if i < length (sessions st) then stdout_on_data data st else st)"
| "step env (ChildStderr i data) st =
     (if i < length (sessions st) then stderr_on_data data st else st)"
| "step env (ChildClose i code signal) st =
     (if i < length (sessions st)
      then (server_on_close code signal st)
             \<lparr>sessions := (sessions st)[i := (fst (sessions st ! i), True)]\<rparr>
      else st)"

fun run :: "(process_env \<times> event) list \<Rightarrow> app_state \<Rightarrow> app_state" where
  "run [] st = st"
| "run ((env, ev) # evs) st = run evs (step env ev st)"

subsection \<open>The lifetime of the application\<close>

text \<open>
  The runtime decides which events reach the handlers. It emits \<open>ready\<close> once. When
  the last window has closed it emits \<open>window-all-closed\<close>, to which the application
  answers with \<open>app.quit\<close> (and without a handler the runtime quits by itself); quitting
  emits \<open>quit\<close> and ends the application, after which no handler runs any more.
  \<open>window-all-closed\<close> comes from nowhere else. Beside the module's state the runtime
  has: whether \<open>ready\<close> was emitted, how many of the windows made have closed, and
  whether the application has ended.
\<close>

record runtime =
  app :: app_state
  ready_emitted :: bool
  windows_closed :: nat
  ended :: bool

definition launch :: "process_env \<Rightarrow> runtime" where
  "launch env = \<lparr>app = main env, ready_emitted = False, windows_closed = 0, ended = False\<rparr>"

definition quit_app :: "process_env \<Rightarrow> runtime \<Rightarrow> runtime" where
  "quit_app env rt = rt\<lparr>app := step env Quit (app rt), ended := True\<rparr>"

fun deliver :: "process_env \<Rightarrow> event \<Rightarrow> runtime \<Rightarrow> runtime" where
  "deliver env AppReady rt =
     (if ended rt \<or> ready_emitted rt then rt
      else rt\<lparr>app := step env AppReady (app rt), ready_emitted := True\<rparr>)"
| "deliver env WindowClosed rt =
     (if ended rt \<or> \<not> windows_closed rt < windows_created (app rt) then rt
      else
        let rt = rt\<lparr>app := step env WindowClosed (app rt),
                      windows_closed := Suc (windows_closed rt)\<rparr>
        in if windows_closed rt = windows_created (app rt)
           then quit_app env (rt\<lparr>app := step env WindowAllClosed (app rt)\<rparr>)
           else rt)"
| "deliver env WindowAllClosed rt = rt"
| "deliver env Quit rt = (if ended rt then rt else quit_app env rt)"
| "deliver env ev rt = (if ended rt then rt else rt\<lparr>app := step env ev (app rt)\<rparr>)"

fun lifetime :: "(process_env \<times> event) list \<Rightarrow> runtime \<Rightarrow> runtime" where
  "lifetime [] rt = rt"
| "lifetime ((env, ev) # evs) rt = lifetime evs (deliver env ev rt)"

text \<open>
  What holds of the application at every point of its lifetime: at most one window was
  made and at most one process started; while the application has not ended, no window
  of it has closed, so that \<open>mainWindow\<close> is not null; before \<open>ready\<close> no window was
  made and the windowed application has started no process; the headless application
  makes no window.
\<close>

definition settled :: "runtime \<Rightarrow> bool" where
  "settled rt \<longleftrightarrow>
     length (sessions (app rt)) \<le> 1
     \<and> windows_created (app rt) \<le> 1
     \<and> (\<not> ended rt \<longrightarrow> mainWindow (app rt) \<noteq> WNull \<and> windows_closed rt = 0)
     \<and> (\<not> ready_emitted rt \<longrightarrow>
          windows_created (app rt) = 0 \<and> (started (app rt) \<longrightarrow> sessions (app rt) = []))
     \<and> (\<not> started (app rt) \<longrightarrow> windows_created (app rt) = 0)"

text \<open>The processes that were started and whose \<open>close\<close> event has not been seen.\<close>

definition live_sessions :: "app_state \<Rightarrow> child_process list" where
  "live_sessions st = map fst (filter (\<lambda>(p, closed). \<not> closed \<and> pid p \<noteq> None) (sessions st))"

text \<open>The calls that send a signal.\<close>

fun is_signal :: "os_call \<Rightarrow> bool" where
  "is_signal (ProcessKill n) = True"
| "is_signal (ChildKill p) = True"
| "is_signal c = False"


section \<open>Renderer bridge: \<open>desktopApi\<close> in \<open>preload.ts\<close>\<close>

text \<open>
  What the bridge asks of \<open>ipcRenderer\<close>: to send a message, or to register a listener.
  A listener is called with the event and the arguments of a message; \<open>'r\<close> is whatever
  the renderer's callback does with the arguments.
\<close>

datatype 'r ipc_call =
    IpcSend jsval jsval
  | IpcOn jsval "jsval \<Rightarrow> jsval list \<Rightarrow> 'r"

definition validChannels :: "jsval list" where
  "validChannels = [JStr ''update_available'', JStr ''locale'', JStr ''show_release_notes'']"

text \<open>\<open>xs.includes(x)\<close> on a list of strings.\<close>

fun array_includes :: "jsval list \<Rightarrow> jsval \<Rightarrow> bool" where
  "array_includes [] x = False"
| "array_includes (y # ys) x = (y = x \<or> array_includes ys x)"

definition desktopApi_send :: "jsval \<Rightarrow> jsval \<Rightarrow> 'r ipc_call list" where
  "desktopApi_send channel data =
     (if array_includes validChannels channel then [IpcSend channel data] else [])"

definition desktopApi_receive :: "jsval \<Rightarrow> (jsval list \<Rightarrow> 'r) \<Rightarrow> 'r ipc_call list" where
  "desktopApi_receive channel func =
     (if array_includes validChannels channel then [IpcOn channel (\<lambda>event args. func args)] else [])"


section \<open>Concrete runs\<close>

text \<open>A release source that answers every request with release 1.2.0.\<close>

definition release_1_2_0 :: release_data where
  "release_1_2_0 =
     \<lparr>name = JStr ''1.2.0'', html_url = JStr ''https://example.org/releases/1.2.0'',
      body = JStr ''notes of 1.2.0''\<rparr>"

definition octokit_1_2_0 :: octokit where
  "octokit_1_2_0 route owner repo = Inr release_1_2_0"

text \<open>A release source that cannot be reached.\<close>

definition octokit_offline :: octokit where
  "octokit_offline route owner repo = Inl (JsError ''HttpError: getaddrinfo ENOTFOUND'')"

definition empty_store :: notifier_state where
  "empty_store = \<lparr>store = Map.empty, effects = []\<rparr>"

definition store_with :: "jsval \<Rightarrow> notifier_state" where
  "store_with v = \<lparr>store = [''app_version'' \<mapsto> v], effects = []\<rparr>"

text \<open>A release source whose release notes name the request they answer.\<close>

definition octokit_notes :: octokit where
  "octokit_notes route owner repo =
     Inr \<lparr>name = JStr ''1.2.0'', html_url = JStr ''https://example.org/releases/1.2.0'',
          body = JStr (''notes for '' @ route)\<rparr>"

definition fresh :: "notifier_state \<Rightarrow> world" where
  "fresh s = \<lparr>shared = s, passes = []\<rparr>"

text \<open>The application is upgraded from 1.1.0 to 1.2.0, downgraded and upgraded again;
  no two passes overlap.\<close>

definition up_down_up :: "action list" where
  "up_down_up = one_after_another 0
     [(octokit_notes, ''1.1.0''), (octokit_notes, ''1.2.0''),
      (octokit_notes, ''1.1.0''), (octokit_notes, ''1.2.0'')]"

text \<open>Three starts of version 1.2.0 after 1.1.0 had run; the first finds the release
  source unreachable.\<close>

definition three_starts :: "(octokit \<times> string) list" where
  "three_starts = [(octokit_offline, ''1.2.0''), (octokit_1_2_0, ''1.2.0''),
                   (octokit_1_2_0, ''1.2.0'')]"

text \<open>The page of 1.2.0 is loaded twice in a row over a store left by 1.1.0, and the
  second pass begins before the first has its answers.\<close>

definition loaded_twice :: "action list" where
  "loaded_twice =
     [DomReady octokit_1_2_0 ''1.2.0'', DomReady octokit_1_2_0 ''1.2.0'',
      Answered 0, Answered 1, Answered 0, Answered 1]"

definition demo_path_join :: "string \<Rightarrow> string \<Rightarrow> string" where
  "demo_path_join dir rel = dir @ ''/'' @ (if take 2 rel = ''./'' then drop 2 rel else rel)"

definition linux_env :: process_env where
  "linux_env =
     \<lparr>platform = ''linux'', resourcesPath = ''/opt/app/resources'',
      ELECTRON_DEV = None, isHeadlessMode = False, disableGPU = False,
      path_join = demo_path_join,
      spawn = (\<lambda>file args options. Inr \<lparr>pid = Some 4242\<rparr>),
      kill_result = (\<lambda>n. None)\<rparr>"

text \<open>The same machine later: the next process started gets another pid.\<close>

definition linux_env_later :: process_env where
  "linux_env_later = linux_env\<lparr>spawn := (\<lambda>file args options. Inr \<lparr>pid = Some 4343\<rparr>)\<rparr>"

definition win32_env :: process_env where
  "win32_env = linux_env\<lparr>platform := ''win32''\<rparr>"

text \<open>A machine on which the process cannot be started: \<open>spawn\<close> returns a handle
  without a pid, and the failure follows as an \<open>error\<close> event.\<close>

definition failing_env :: process_env where
  "failing_env = linux_env\<lparr>spawn := (\<lambda>file args options. Inr \<lparr>pid = None\<rparr>)\<rparr>"

text \<open>A machine on which \<open>spawn\<close> itself throws.\<close>

definition throwing_env :: process_env where
  "throwing_env = linux_env\<lparr>spawn := (\<lambda>file args options. Inl (JsError ''Error: spawn EPERM''))\<rparr>"

definition spawn_ENOENT :: js_error where
  "spawn_ENOENT = JsError ''Error: spawn /bin/sh ENOENT''"

text \<open>The windowed application after \<open>ready\<close>.\<close>

definition running :: "process_env \<Rightarrow> app_state" where
  "running env = run [(env, AppReady)] (main env)"

text \<open>A machine on which the server's process group is gone before its \<open>close\<close> event
  has been seen: the signal to the group fails.\<close>

definition group_gone_env :: process_env where
  "group_gone_env = linux_env\<lparr>kill_result := (\<lambda>n. Some (JsError ''Error: kill ESRCH''))\<rparr>"

text \<open>The windowed application is started, its server writes to stderr, the window is
  closed, and events keep coming.\<close>

definition window_closed_run :: "(process_env \<times> event) list" where
  "window_closed_run =
     [(linux_env, AppReady), (linux_env, ChildStderr 0 (BufferChunk ''Requesting: users'')),
      (linux_env, WindowClosed), (linux_env_later, Activate), (linux_env_later, AppReady)]"


section \<open>Properties of the update notifier\<close>

lemma sent_on_append: "sent_on c (xs @ ys) = sent_on c xs @ sent_on c ys"
  by (simp add: sent_on_def)

lemma sent_on_simps:
  "sent_on c [] = []"
  "sent_on c (Send c' p # es) = (if c' = c then p # sent_on c es else sent_on c es)"
  "sent_on c (Request r a b # es) = sent_on c es"
  "sent_on c (StoreSet k v # es) = sent_on c es"
  "sent_on c (ConsoleLog v # es) = sent_on c es"
  by (simp_all add: sent_on_def)

lemmas fetchRelease_defs = fetchRelease_def request_def webContents_send_def console_log_def
  store_set_def store_get_def strict_neq_string_def Let_def

lemmas notifier_run_defs = octokit_1_2_0_def release_1_2_0_def octokit_offline_def
  octokit_notes_def empty_store_def store_with_def fresh_def

text \<open>
  Claim C1, as the code has it. After the comparison with the latest release, a pass
  branches on the stored version. If it is absent or falsy (the empty string, for one),
  the pass writes the running version and sends no \<open>show_release_notes\<close>. If it is truthy
  and differs from the running version, the pass requests the release tagged
  \<open>v<running version>\<close> and, given that release, sends \<open>show_release_notes\<close> with its
  body and then writes the running version. If it is truthy and equal to the running
  version, the pass sends no \<open>show_release_notes\<close> and writes nothing.
\<close>

theorem fetchRelease_branches_on_stored_version:
  fixes oc :: octokit and response :: release_data and appVersion :: string
    and s :: notifier_state
  defines "stored \<equiv> store_get s ''app_version''"
    and "res \<equiv> fetchRelease oc appVersion s"
    and "compared \<equiv> effects s @ [Request latest_route ''ashu8912'' ''update-testing'']
           @ (if name response \<noteq> JStr appVersion
              then [Send ''update_available'' (JObj [(''downloadURL'', html_url response)])]
              else [])"
  assumes latest: "oc latest_route ''ashu8912'' ''update-testing'' = Inr response"
  shows "(\<not> truthy stored \<longrightarrow>
            fst res = None
            \<and> effects (snd res)
                = compared @ [ConsoleLog stored, StoreSet ''app_version'' (JStr appVersion)]
            \<and> store (snd res) = (store s)(''app_version'' \<mapsto> JStr appVersion))
       \<and> (truthy stored \<and> stored \<noteq> JStr appVersion \<longrightarrow>
            (\<forall>tagged. oc (tag_route appVersion) ''ashu8912'' ''update-testing'' = Inr tagged \<longrightarrow>
               fst res = None
               \<and> effects (snd res)
                   = compared @
                     [ConsoleLog stored,
                      Request (tag_route appVersion) ''ashu8912'' ''update-testing'',
                      Send ''show_release_notes'' (JObj [(''releaseNotes'', body tagged)]),
                      StoreSet ''app_version'' (JStr appVersion)]
               \<and> store (snd res) = (store s)(''app_version'' \<mapsto> JStr appVersion)))
       \<and> (truthy stored \<and> stored = JStr appVersion \<longrightarrow>
            fst res = None
            \<and> effects (snd res) = compared @ [ConsoleLog stored]
            \<and> store (snd res) = store s)"
  using latest unfolding stored_def res_def compared_def
  by (auto simp: fetchRelease_defs split: sum.splits option.splits)

text \<open>
  The three branches at work: a first run of 1.2.0, a run of 1.3.0 over a store left by
  1.1.0, and a second run of 1.2.0.
\<close>

theorem fetchRelease_branches_on_stored_version_witness:
  "octokit_1_2_0 latest_route ''ashu8912'' ''update-testing'' = Inr release_1_2_0
   \<and> octokit_1_2_0 (tag_route ''1.3.0'') ''ashu8912'' ''update-testing'' = Inr release_1_2_0
   \<and> effects (snd (fetchRelease octokit_1_2_0 ''1.2.0'' empty_store))
       = [Request latest_route ''ashu8912'' ''update-testing'', ConsoleLog JUndefined,
          StoreSet ''app_version'' (JStr ''1.2.0'')]
   \<and> truthy (store_get (store_with (JStr ''1.1.0'')) ''app_version'')
   \<and> store_get (store_with (JStr ''1.1.0'')) ''app_version'' \<noteq> JStr ''1.3.0''
   \<and> effects (snd (fetchRelease octokit_1_2_0 ''1.3.0'' (store_with (JStr ''1.1.0''))))
       = [Request latest_route ''ashu8912'' ''update-testing'',
          Send ''update_available''
            (JObj [(''downloadURL'', JStr ''https://example.org/releases/1.2.0'')]),
          ConsoleLog (JStr ''1.1.0''),
          Request (tag_route ''1.3.0'') ''ashu8912'' ''update-testing'',
          Send ''show_release_notes'' (JObj [(''releaseNotes'', JStr ''notes of 1.2.0'')]),
          StoreSet ''app_version'' (JStr ''1.3.0'')]
   \<and> store (snd (fetchRelease octokit_1_2_0 ''1.3.0'' (store_with (JStr ''1.1.0''))))
         ''app_version'' = Some (JStr ''1.3.0'')
   \<and> effects (snd (fetchRelease octokit_1_2_0 ''1.2.0'' (store_with (JStr ''1.2.0''))))
       = [Request latest_route ''ashu8912'' ''update-testing'', ConsoleLog (JStr ''1.2.0'')]
   \<and> store (snd (fetchRelease octokit_1_2_0 ''1.2.0'' (store_with (JStr ''1.2.0''))))
       = store (store_with (JStr ''1.2.0''))"
  using
    fetchRelease_branches_on_stored_version [where oc = octokit_1_2_0
      and response = release_1_2_0 and appVersion = "''1.2.0''" and s = empty_store]
    fetchRelease_branches_on_stored_version [where oc = octokit_1_2_0
      and response = release_1_2_0 and appVersion = "''1.3.0''"
      and s = "store_with (JStr ''1.1.0'')"]
    fetchRelease_branches_on_stored_version [where oc = octokit_1_2_0
      and response = release_1_2_0 and appVersion = "''1.2.0''"
      and s = "store_with (JStr ''1.2.0'')"]
  by (simp add: notifier_run_defs store_get_def)

text \<open>
  Claim C1 as it is worded fails where the store holds the empty string: the stored
  version is present and differs from the running version 1.2.0, yet the pass requests no
  tagged release and sends no \<open>show_release_notes\<close>; it only overwrites the stored version.
\<close>

theorem fetchRelease_empty_stored_version_counterexample:
  "store (store_with (JStr '''')) ''app_version'' = Some (JStr '''')
   \<and> JStr '''' \<noteq> JStr ''1.2.0''
   \<and> sent_on ''show_release_notes''
        (effects (snd (fetchRelease octokit_1_2_0 ''1.2.0'' (store_with (JStr ''''))))) = []
   \<and> effects (snd (fetchRelease octokit_1_2_0 ''1.2.0'' (store_with (JStr ''''))))
       = [Request latest_route ''ashu8912'' ''update-testing'', ConsoleLog (JStr ''''),
          StoreSet ''app_version'' (JStr ''1.2.0'')]"
  by (simp add: fetchRelease_defs notifier_run_defs sent_on_simps sent_on_append)

text \<open>
  Claim C2. A pass sends \<open>update_available\<close>, with the latest release's URL as
  \<open>downloadURL\<close>, exactly when the latest release's name is not the string that is the
  running version; nothing but inequality of the two is looked at, and the content of the
  store plays no part.
\<close>

theorem fetchRelease_update_available:
  "sent_on ''update_available'' (effects (snd (fetchRelease oc appVersion s)))
     = sent_on ''update_available'' (effects s)
       @ (case oc latest_route ''ashu8912'' ''update-testing'' of
            Inl e \<Rightarrow> []
          | Inr response \<Rightarrow>
              if name response \<noteq> JStr appVersion
              then [JObj [(''downloadURL'', html_url response)]] else [])
   \<and> sent_on ''update_available'' (effects (snd (fetchRelease oc appVersion (s\<lparr>store := m\<rparr>))))
     = sent_on ''update_available'' (effects (snd (fetchRelease oc appVersion s)))"
  by (auto simp: fetchRelease_defs sent_on_append sent_on_simps split: sum.splits option.splits)

text \<open>
  The latest release 1.2.0 is older than the running 1.3.0 and is announced all the same;
  it is not announced to the running 1.2.0, whatever the store holds.
\<close>

theorem fetchRelease_update_available_witness:
  "sent_on ''update_available''
      (effects (snd (fetchRelease octokit_1_2_0 ''1.3.0'' (store_with (JStr ''1.3.0'')))))
     = [JObj [(''downloadURL'', JStr ''https://example.org/releases/1.2.0'')]]
   \<and> sent_on ''update_available''
      (effects (snd (fetchRelease octokit_1_2_0 ''1.2.0'' (store_with (JStr ''1.1.0''))))) = []
   \<and> sent_on ''update_available''
      (effects (snd (fetchRelease octokit_1_2_0 ''1.2.0'' empty_store))) = []"
  using
    fetchRelease_update_available [where oc = octokit_1_2_0 and appVersion = "''1.3.0''"
      and s = "store_with (JStr ''1.3.0'')"]
    fetchRelease_update_available [where oc = octokit_1_2_0 and appVersion = "''1.2.0''"
      and s = "store_with (JStr ''1.1.0'')"]
    fetchRelease_update_available [where oc = octokit_1_2_0 and appVersion = "''1.2.0''"
      and s = empty_store]
  by (simp add: notifier_run_defs sent_on_simps)

lemmas piece_defs = fetchRelease_begin_def fetchRelease_on_latest_def fetchRelease_on_tag_def

lemma interleave_append: "interleave (as @ bs) w = interleave bs (interleave as w)"
  by (induction as arbitrary: w) simp_all

lemma one_after_another_Cons:
  "interleave (one_after_another i ((oc, v) # ps)) w
     = interleave (one_after_another (Suc i) ps)
         (interleave [DomReady oc v, Answered i, Answered i] w)"
  by simp

text \<open>
  The pieces make up the pass: begun and answered to its end with nothing in between,
  pass \<open>i\<close> does to the store and to the outside what \<open>fetchRelease\<close> does in one go.
\<close>

lemma pass_without_overlap:
  assumes "i = length (passes w)"
  shows "interleave [DomReady oc v, Answered i, Answered i] w =
           \<lparr>shared = snd (fetchRelease oc v (shared w)),
            passes = passes w @ [(oc, v, Finished (fst (fetchRelease oc v (shared w))))]\<rparr>"
proof (cases "oc latest_route ''ashu8912'' ''update-testing''")
  case (Inl e)
  with assms show ?thesis
    by (simp add: piece_defs fetchRelease_defs)
next
  case (Inr response)
  show ?thesis
  proof (cases "oc (tag_route v) ''ashu8912'' ''update-testing''")
    case (Inl e)
    with Inr assms show ?thesis
      by (simp add: piece_defs fetchRelease_defs)
  next
    case tagged: (Inr releaseTagResponse)
    with Inr assms show ?thesis
      by (simp add: piece_defs fetchRelease_defs)
  qed
qed

lemma act_store:
  "store (shared (act a w)) = store (shared w)
   \<or> (\<exists>i oc v st. a = Answered i \<and> i < length (passes w) \<and> passes w ! i = (oc, v, st)
         \<and> store (shared (act a w)) = (store (shared w))(''app_version'' \<mapsto> JStr v))"
proof (cases a)
  case (DomReady oc v)
  then show ?thesis by (simp add: piece_defs request_def)
next
  case (Answered i)
  show ?thesis
  proof (cases "i < length (passes w)")
    case False
    with Answered show ?thesis by simp
  next
    case True
    obtain oc v st where p: "passes w ! i = (oc, v, st)" by (cases "passes w ! i")
    have "store (snd (resume (oc, v, st) (shared w))) = store (shared w)
          \<or> store (snd (resume (oc, v, st) (shared w)))
              = (store (shared w))(''app_version'' \<mapsto> JStr v)"
      by (cases st)
        (auto simp: piece_defs fetchRelease_defs split: sum.splits option.splits)
    with Answered True p show ?thesis
      by (auto split: prod.splits)
  qed
qed

lemma on_latest_own_version:
  "store_get s ''app_version'' = JStr v \<Longrightarrow> fst (fetchRelease_on_latest oc v s) \<noteq> AwaitingTag"
  by (auto simp: piece_defs fetchRelease_defs split: sum.splits option.splits)

lemma fetchRelease_notes_sent:
  "notes_sent (snd (fetchRelease oc v s)) \<le> notes_sent s + 1"
  by (auto simp: notes_sent_def fetchRelease_defs sent_on_append sent_on_simps
      split: sum.splits option.splits)

lemma shown_then_stored:
  "notes_sent (snd (fetchRelease oc v s)) \<noteq> notes_sent s \<Longrightarrow>
     store_get (snd (fetchRelease oc v s)) ''app_version'' = JStr v"
  by (auto simp: notes_sent_def fetchRelease_defs sent_on_append sent_on_simps
      split: sum.splits option.splits if_splits)

lemma stored_then_not_shown:
  "store_get s ''app_version'' = JStr v \<Longrightarrow>
     notes_sent (snd (fetchRelease oc v s)) = notes_sent s
     \<and> store_get (snd (fetchRelease oc v s)) ''app_version'' = JStr v"
  by (auto simp: notes_sent_def fetchRelease_defs sent_on_append sent_on_simps
      split: sum.splits option.splits if_splits)

lemma stored_then_never_shown:
  "\<forall>p \<in> set ps. snd p = v \<Longrightarrow> store_get (shared w) ''app_version'' = JStr v \<Longrightarrow>
     notes_sent (shared (interleave (one_after_another (length (passes w)) ps) w))
       = notes_sent (shared w)"
proof (induction ps arbitrary: w)
  case Nil
  then show ?case by simp
next
  case (Cons p ps)
  obtain oc u where p: "p = (oc, u)" by (cases p)
  with Cons.prems have u: "u = v" by simp
  define w' where "w' = interleave [DomReady oc v, Answered (length (passes w)),
                                     Answered (length (passes w))] w"
  have w': "shared w' = snd (fetchRelease oc v (shared w))"
    "length (passes w') = Suc (length (passes w))"
    unfolding w'_def pass_without_overlap [OF refl] by simp_all
  from stored_then_not_shown [OF Cons.prems(2), of oc] w'
  have same: "notes_sent (shared w') = notes_sent (shared w)"
    and stored: "store_get (shared w') ''app_version'' = JStr v" by simp_all
  from Cons.prems(1) have "\<forall>p \<in> set ps. snd p = v" by simp
  from Cons.IH [OF this stored] w'(2) same
  have "notes_sent (shared (interleave (one_after_another (Suc (length (passes w))) ps) w'))
          = notes_sent (shared w)" by simp
  then show ?case
    unfolding p u w'_def by (simp only: one_after_another_Cons)
qed

lemma same_version_shown_once:
  "\<forall>p \<in> set ps. snd p = v \<Longrightarrow>
     notes_sent (shared (interleave (one_after_another (length (passes w)) ps) w))
       \<le> notes_sent (shared w) + 1"
proof (induction ps arbitrary: w)
  case Nil
  then show ?case by simp
next
  case (Cons p ps)
  obtain oc u where p: "p = (oc, u)" by (cases p)
  with Cons.prems have u: "u = v" by simp
  from Cons.prems have rest: "\<forall>p \<in> set ps. snd p = v" by simp
  define w' where "w' = interleave [DomReady oc v, Answered (length (passes w)),
                                     Answered (length (passes w))] w"
  have w': "shared w' = snd (fetchRelease oc v (shared w))"
    "length (passes w') = Suc (length (passes w))"
    unfolding w'_def pass_without_overlap [OF refl] by simp_all
  have "notes_sent (shared (interleave (one_after_another (Suc (length (passes w))) ps) w'))
          \<le> notes_sent (shared w) + 1"
  proof (cases "notes_sent (shared w') = notes_sent (shared w)")
    case True
    with Cons.IH [OF rest, of w'] w'(2) show ?thesis by simp
  next
    case False
    with shown_then_stored [of oc v "shared w"] w'(1)
    have "store_get (shared w') ''app_version'' = JStr v" by simp
    from stored_then_never_shown [OF rest this] w'(2)
    have "notes_sent (shared (interleave (one_after_another (Suc (length (passes w))) ps) w'))
            = notes_sent (shared w')" by simp
    with fetchRelease_notes_sent [of oc v "shared w"] w'(1) show ?thesis by simp
  qed
  then show ?case
    unfolding p u w'_def by (simp only: one_after_another_Cons)
qed

text \<open>
  Claim C3, as the code has it. Whatever passes run and however their pieces fall
  between one another, every write to the store sets the stored version to the running
  version of the pass that writes, be that version newer or older than the stored one: no
  order of versions is consulted. A pass that reads a stored version equal to its running
  version does not go on to the release notes. Across any sequence of passes run by one
  and the same version of which each has finished before the next begins,
  \<open>show_release_notes\<close> is sent at most once.
\<close>

theorem stored_version_follows_running_version:
  "(store (shared (act a w)) = store (shared w)
     \<or> (\<exists>i oc u st. a = Answered i \<and> i < length (passes w) \<and> passes w ! i = (oc, u, st)
           \<and> store (shared (act a w)) = (store (shared w))(''app_version'' \<mapsto> JStr u)))
   \<and> (store_get s ''app_version'' = JStr v \<longrightarrow>
         fst (fetchRelease_on_latest oc v s) \<noteq> AwaitingTag)
   \<and> ((\<forall>p \<in> set ps. snd p = v) \<longrightarrow>
         notes_sent (shared (interleave (one_after_another (length (passes w)) ps) w))
           \<le> notes_sent (shared w) + 1)"
  using act_store [of a w] on_latest_own_version [of s v oc] same_version_shown_once [of ps v w]
  by blast

text \<open>
  Version 1.2.0 starts three times over a store left by 1.1.0, the first time without
  network: the notes are shown once, by the second start. A pass of 1.2.0 that finds
  1.2.0 stored ends when the latest release has answered.
\<close>

theorem stored_version_follows_running_version_witness:
  "map snd three_starts = [''1.2.0'', ''1.2.0'', ''1.2.0'']
   \<and> notes_sent (shared (fresh (store_with (JStr ''1.1.0'')))) = 0
   \<and> notes_sent (shared (interleave
          (one_after_another (length (passes (fresh (store_with (JStr ''1.1.0''))))) three_starts)
          (fresh (store_with (JStr ''1.1.0''))))) = 1
   \<and> store_get (store_with (JStr ''1.2.0'')) ''app_version'' = JStr ''1.2.0''
   \<and> fst (fetchRelease_on_latest octokit_1_2_0 ''1.2.0'' (store_with (JStr ''1.2.0'')))
       = Finished None
   \<and> store (shared (act (Answered 0)
        (act (DomReady octokit_1_2_0 ''1.2.0'') (fresh empty_store))))
       = [''app_version'' \<mapsto> JStr ''1.2.0'']"
  using
    stored_version_follows_running_version [where ps = three_starts and v = "''1.2.0''"
      and w = "fresh (store_with (JStr ''1.1.0''))" and oc = octokit_1_2_0
      and s = "store_with (JStr ''1.2.0'')" and a = "Answered 0"]
    stored_version_follows_running_version [where ps = three_starts and v = "''1.2.0''"
      and w = "act (DomReady octokit_1_2_0 ''1.2.0'') (fresh empty_store)"
      and oc = octokit_1_2_0 and s = "store_with (JStr ''1.2.0'')" and a = "Answered 0"]
  by (simp add: three_starts_def notifier_run_defs notes_sent_def piece_defs fetchRelease_defs
      sent_on_append sent_on_simps)

text \<open>
  Claim C3 as it is worded fails when the running version changes back and forth. Over
  one store, with no two passes overlapping, 1.1.0 runs first, then 1.2.0, then 1.1.0
  again, then 1.2.0 again: the stored version goes from 1.2.0 back to 1.1.0, and the
  release notes of 1.2.0 are shown twice.
\<close>

theorem stored_version_rollback_counterexample:
  "store_get (shared (interleave (take 6 up_down_up) (fresh empty_store))) ''app_version''
     = JStr ''1.2.0''
   \<and> store_get (shared (interleave (take 9 up_down_up) (fresh empty_store))) ''app_version''
     = JStr ''1.1.0''
   \<and> sent_on ''show_release_notes'' (effects (shared (interleave up_down_up (fresh empty_store))))
     = [JObj [(''releaseNotes'',
               JStr ''notes for GET /repos/{owner}/{repo}/releases/tags/v1.2.0'')],
        JObj [(''releaseNotes'',
               JStr ''notes for GET /repos/{owner}/{repo}/releases/tags/v1.1.0'')],
        JObj [(''releaseNotes'',
               JStr ''notes for GET /repos/{owner}/{repo}/releases/tags/v1.2.0'')]]"
  by (simp add: up_down_up_def notifier_run_defs piece_defs fetchRelease_defs tag_route_def
      sent_on_append sent_on_simps)

text \<open>
  Passes that overlap are outside the statement of at most once: when the page of 1.2.0
  is loaded twice and both passes read the store before either has written it, both send
  the release notes.
\<close>

lemma passes_loaded_twice:
  "sent_on ''show_release_notes''
     (effects (shared (interleave loaded_twice (fresh (store_with (JStr ''1.1.0''))))))
     = [JObj [(''releaseNotes'', JStr ''notes of 1.2.0'')],
        JObj [(''releaseNotes'', JStr ''notes of 1.2.0'')]]"
  by (simp add: loaded_twice_def notifier_run_defs piece_defs fetchRelease_defs
      sent_on_append sent_on_simps)

text \<open>
  Claim C9. A falsy value stored under \<open>app_version\<close> (the empty string, \<open>null\<close>,
  \<open>false\<close>, \<open>0\<close>) is treated as a missing one: the pass does what it does over a store
  without the key, except that \<open>console.log\<close> prints the value found. It overwrites the key
  with the running version and sends no \<open>show_release_notes\<close>, also when the stored string
  differs from the running version.
\<close>

theorem fetchRelease_falsy_stored_version:
  fixes oc :: octokit and response :: release_data and appVersion :: string
    and s :: notifier_state and w :: jsval
  defines "holding \<equiv> fetchRelease oc appVersion (s\<lparr>store := (store s)(''app_version'' \<mapsto> w)\<rparr>)"
    and "absent \<equiv> fetchRelease oc appVersion (s\<lparr>store := (store s)(''app_version'' := None)\<rparr>)"
    and "compared \<equiv> effects s @ [Request latest_route ''ashu8912'' ''update-testing'']
           @ (if name response \<noteq> JStr appVersion
              then [Send ''update_available'' (JObj [(''downloadURL'', html_url response)])]
              else [])"
  assumes falsy: "\<not> truthy w"
    and latest: "oc latest_route ''ashu8912'' ''update-testing'' = Inr response"
  shows "fst holding = None \<and> fst absent = None
       \<and> effects (snd holding)
           = compared @ [ConsoleLog w, StoreSet ''app_version'' (JStr appVersion)]
       \<and> effects (snd absent)
           = compared @ [ConsoleLog JUndefined, StoreSet ''app_version'' (JStr appVersion)]
       \<and> store (snd holding) = (store s)(''app_version'' \<mapsto> JStr appVersion)
       \<and> store (snd absent) = store (snd holding)
       \<and> sent_on ''show_release_notes'' (effects (snd holding))
           = sent_on ''show_release_notes'' (effects s)"
  using falsy latest unfolding holding_def absent_def compared_def
  by (auto simp: fetchRelease_defs sent_on_append sent_on_simps split: sum.splits option.splits)

text \<open>The empty string under \<open>app_version\<close>, the application at 1.2.0.\<close>

theorem fetchRelease_falsy_stored_version_witness:
  "\<not> truthy (JStr '''')
   \<and> JStr '''' \<noteq> JStr ''1.2.0''
   \<and> octokit_1_2_0 latest_route ''ashu8912'' ''update-testing'' = Inr release_1_2_0
   \<and> effects (snd (fetchRelease octokit_1_2_0 ''1.2.0''
                     (empty_store\<lparr>store := (store empty_store)(''app_version'' \<mapsto> JStr '''')\<rparr>)))
       = [Request latest_route ''ashu8912'' ''update-testing'', ConsoleLog (JStr ''''),
          StoreSet ''app_version'' (JStr ''1.2.0'')]
   \<and> store (snd (fetchRelease octokit_1_2_0 ''1.2.0''
                    (empty_store\<lparr>store := (store empty_store)(''app_version'' \<mapsto> JStr '''')\<rparr>)))
       = [''app_version'' \<mapsto> JStr ''1.2.0'']"
  using fetchRelease_falsy_stored_version [where oc = octokit_1_2_0
      and response = release_1_2_0 and appVersion = "''1.2.0''" and s = empty_store
      and w = "JStr ''''"]
  by (simp add: notifier_run_defs)


section \<open>Properties of the supervisor\<close>

lemmas handler_defs = log_error_def log_info_def call_def Let_def

lemmas start_defs = main_def startElecron_def createWindow_def startServer_def
  attachServerEventHandlers_def initial_state_def handler_defs

lemmas supervisor_run_defs = running_def linux_env_def linux_env_later_def win32_env_def
  failing_env_def throwing_env_def group_gone_env_def spawn_ENOENT_def demo_path_join_def

lemmas quit_defs = quitServerProcess_def process_kill_def

lemma quitServerProcess_not_running:
  "serverProcess st = None \<or> is_true (serverProcessQuit st) \<Longrightarrow>
   quitServerProcess env st =
     st\<lparr>log_entries := log_entries st @ [(LogError, ''server process already not running'')]\<rparr>"
  by (auto simp: quitServerProcess_def handler_defs split: option.splits)

lemma quitServerProcess_running:
  "serverProcess st = Some p \<Longrightarrow> \<not> is_true (serverProcessQuit st) \<Longrightarrow>
   platform env = ''win32'' \<or> process_kill env (neg_pid (pid p)) = None \<Longrightarrow>
   quitServerProcess env st =
     st\<lparr>intentionalQuit := Some True,
        log_entries := log_entries st @ [(LogInfo, ''stopping server process...'')],
        calls := calls st
           @ (if platform env \<noteq> ''win32'' then [ProcessKill (neg_pid (pid p))] else [])
           @ [StdinDestroy p, ChildKill p],
        serverProcess := None\<rparr>"
  by (auto simp: quitServerProcess_def handler_defs split: option.splits)

text \<open>
  When the signal to the group fails, the handler ends there: the process is neither
  signalled nor dropped, and the exception is left uncaught.
\<close>

lemma quitServerProcess_signal_fails:
  "serverProcess st = Some p \<Longrightarrow> \<not> is_true (serverProcessQuit st) \<Longrightarrow>
   platform env \<noteq> ''win32'' \<Longrightarrow> process_kill env (neg_pid (pid p)) = Some e \<Longrightarrow>
   quitServerProcess env st =
     st\<lparr>intentionalQuit := Some True,
        log_entries := log_entries st @ [(LogInfo, ''stopping server process...'')],
        calls := calls st @ [ProcessKill (neg_pid (pid p))],
        uncaught := uncaught st @ [e]\<rparr>"
  by (auto simp: quitServerProcess_def handler_defs split: option.splits)

text \<open>
  Claim C4, as the code has it. Without a session, or once the session has reported its
  exit, \<open>stop()\<close> only logs that the server process is already not running. Otherwise it
  sets \<open>intentionalQuit\<close> and, on every platform but Windows, signals the negated
  process id; when that call has returned, and at once on Windows, it closes the input
  stream of the process, signals the process itself and drops the session. After such a
  \<open>stop()\<close> a second one in succession sends no signal and only logs: of the two calls
  the operating system gets the signals of the first, which are two (group, then process)
  on every platform but Windows and one (process) on Windows.
\<close>

theorem quitServerProcess_twice:
  "(serverProcess st = None \<or> is_true (serverProcessQuit st) \<longrightarrow>
      quitServerProcess env st =
        st\<lparr>log_entries := log_entries st @ [(LogError, ''server process already not running'')]\<rparr>)
   \<and> (\<forall>p. serverProcess st = Some p \<and> \<not> is_true (serverProcessQuit st)
           \<and> (platform env = ''win32'' \<or> process_kill env (neg_pid (pid p)) = None) \<longrightarrow>
        quitServerProcess env st =
          st\<lparr>intentionalQuit := Some True,
             log_entries := log_entries st @ [(LogInfo, ''stopping server process...'')],
             calls := calls st
                @ (if platform env \<noteq> ''win32'' then [ProcessKill (neg_pid (pid p))] else [])
                @ [StdinDestroy p, ChildKill p],
             serverProcess := None\<rparr>
        \<and> quitServerProcess env' (quitServerProcess env st) =
            (quitServerProcess env st)
              \<lparr>log_entries := log_entries (quitServerProcess env st)
                                @ [(LogError, ''server process already not running'')]\<rparr>
        \<and> filter is_signal (calls (quitServerProcess env' (quitServerProcess env st)))
            = filter is_signal (calls st)
                @ (if platform env \<noteq> ''win32'' then [ProcessKill (neg_pid (pid p))] else [])
                @ [ChildKill p])"
proof -
  have second: "quitServerProcess env' (quitServerProcess env st) =
            (quitServerProcess env st)
              \<lparr>log_entries := log_entries (quitServerProcess env st)
                                @ [(LogError, ''server process already not running'')]\<rparr>"
    and signals: "filter is_signal (calls (quitServerProcess env' (quitServerProcess env st)))
            = filter is_signal (calls st)
                @ (if platform env \<noteq> ''win32'' then [ProcessKill (neg_pid (pid p))] else [])
                @ [ChildKill p]"
    if live: "serverProcess st = Some p" "\<not> is_true (serverProcessQuit st)"
      and returns: "platform env = ''win32'' \<or> process_kill env (neg_pid (pid p)) = None"
    for p
  proof -
    note first = quitServerProcess_running [OF live returns]
    have dropped: "serverProcess (quitServerProcess env st) = None"
      by (simp add: first)
    show second: "quitServerProcess env' (quitServerProcess env st) =
            (quitServerProcess env st)
              \<lparr>log_entries := log_entries (quitServerProcess env st)
                                @ [(LogError, ''server process already not running'')]\<rparr>"
      using dropped by (intro quitServerProcess_not_running) simp
    have "calls (quitServerProcess env' (quitServerProcess env st))
            = calls (quitServerProcess env st)"
      by (subst second) simp
    then show "filter is_signal (calls (quitServerProcess env' (quitServerProcess env st)))
            = filter is_signal (calls st)
                @ (if platform env \<noteq> ''win32'' then [ProcessKill (neg_pid (pid p))] else [])
                @ [ChildKill p]"
      by (simp add: first)
  qed
  show ?thesis
    using quitServerProcess_not_running [of st env] quitServerProcess_running [of st _ env]
      second signals
    by blast
qed

text \<open>
  On Windows a running server is stopped twice: one signal, then one more log entry.
  On Linux, with the signal to the group delivered, the second \<open>stop()\<close> only logs as
  well. Before any server was started, \<open>stop()\<close> only logs.
\<close>

theorem quitServerProcess_twice_witness:
  "serverProcess (running win32_env) = Some \<lparr>pid = Some 4242\<rparr>
   \<and> \<not> is_true (serverProcessQuit (running win32_env))
   \<and> platform win32_env = ''win32''
   \<and> calls (quitServerProcess win32_env (quitServerProcess win32_env (running win32_env)))
       = [NewBrowserWindow 0,
          Spawn ''/opt/app/resources/server'' [] \<lparr>shell = True, detached = False\<rparr>,
          StdinDestroy \<lparr>pid = Some 4242\<rparr>, ChildKill \<lparr>pid = Some 4242\<rparr>]
   \<and> filter is_signal
        (calls (quitServerProcess win32_env (quitServerProcess win32_env (running win32_env))))
       = [ChildKill \<lparr>pid = Some 4242\<rparr>]
   \<and> log_entries (quitServerProcess win32_env (quitServerProcess win32_env (running win32_env)))
       = [(LogInfo, ''App starting...''), (LogInfo, ''stopping server process...''),
          (LogError, ''server process already not running'')]
   \<and> serverProcess (running linux_env) = Some \<lparr>pid = Some 4242\<rparr>
   \<and> \<not> is_true (serverProcessQuit (running linux_env))
   \<and> process_kill linux_env (neg_pid (pid \<lparr>pid = Some 4242\<rparr>)) = None
   \<and> serverProcess (quitServerProcess linux_env (running linux_env)) = None
   \<and> log_entries (quitServerProcess linux_env (quitServerProcess linux_env (running linux_env)))
       = [(LogInfo, ''App starting...''), (LogInfo, ''stopping server process...''),
          (LogError, ''server process already not running'')]
   \<and> serverProcess (main linux_env) = None
   \<and> quitServerProcess linux_env (main linux_env)
       = (main linux_env)\<lparr>log_entries := [(LogInfo, ''App starting...''),
                                            (LogError, ''server process already not running'')]\<rparr>"
  using
    quitServerProcess_twice [where st = "running win32_env" and env = win32_env
      and env' = win32_env]
    quitServerProcess_twice [where st = "running linux_env" and env = linux_env
      and env' = linux_env]
    quitServerProcess_twice [where st = "main linux_env" and env = linux_env
      and env' = linux_env]
  by (simp add: start_defs supervisor_run_defs quit_defs)

text \<open>
  Claim C4 as it is worded fails on every platform but Windows: stopping a running
  server twice in succession, with every signal delivered, sends two signals, not one;
  both are sent by the first call.
\<close>

theorem quitServerProcess_two_signals_counterexample:
  "platform linux_env \<noteq> ''win32''
   \<and> serverProcess (running linux_env) = Some \<lparr>pid = Some 4242\<rparr>
   \<and> \<not> is_true (serverProcessQuit (running linux_env))
   \<and> process_kill linux_env (Some (- 4242)) = None
   \<and> filter is_signal
        (calls (quitServerProcess linux_env (quitServerProcess linux_env (running linux_env))))
       = [ProcessKill (Some (- 4242)), ChildKill \<lparr>pid = Some 4242\<rparr>]"
  by (simp add: start_defs supervisor_run_defs quit_defs)

text \<open>
  A signal to the group that fails is outside the statement above: when the group of
  the server is gone before its \<open>close\<close> event has been seen, the first \<open>stop()\<close> ends
  with the exception and the second signals the same id once more.
\<close>

lemma quitServerProcess_group_gone:
  "calls (quitServerProcess group_gone_env (quitServerProcess group_gone_env (running linux_env)))
     = calls (running linux_env) @ [ProcessKill (Some (- 4242)), ProcessKill (Some (- 4242))]
   \<and> uncaught (quitServerProcess group_gone_env
                   (quitServerProcess group_gone_env (running linux_env)))
     = [JsError ''Error: kill ESRCH'', JsError ''Error: kill ESRCH'']
   \<and> serverProcess (quitServerProcess group_gone_env
                        (quitServerProcess group_gone_env (running linux_env)))
     = Some \<lparr>pid = Some 4242\<rparr>"
  by (simp add: start_defs supervisor_run_defs quit_defs)

text \<open>
  Claim C5. When the child's exit is seen, the supervisor logs it with its code and
  signal, as information if \<open>intentionalQuit\<close> is true and as an error otherwise, and in
  both cases sets the flag that records the exit.
\<close>

theorem server_on_close_classifies_exit:
  "server_on_close code signal st =
     st\<lparr>log_entries := log_entries st @
          [(if is_true (intentionalQuit st) then LogInfo else LogError,
            ''server process process exited with code:'' @ render_code code
              @ '' signal:'' @ render_signal signal)],
        serverProcessQuit := Some True\<rparr>
   \<and> (i < length (sessions st) \<longrightarrow>
        log_entries (step env (ChildClose i code signal) st)
          = log_entries (server_on_close code signal st)
        \<and> serverProcessQuit (step env (ChildClose i code signal) st) = Some True)"
  by (simp add: server_on_close_def handler_defs)

lemma decimal_acc_one: "decimal_acc (Suc 0) [] = ''1''"
  by (simp add: decimal_acc.simps digit_def)

lemma render_code_examples:
  "render_code (Some 0) = ''0''"
  "render_code (Some 127) = ''127''"
  "render_code (Some (- 1)) = ''-1''"
  "render_code None = ''null''"
  by code_simp+

text \<open>A server that exits by itself with code 1, and one that was stopped.\<close>

theorem server_on_close_classifies_exit_witness:
  "0 < length (sessions (running linux_env))
   \<and> \<not> is_true (intentionalQuit (running linux_env))
   \<and> log_entries (step linux_env (ChildClose 0 (Some 1) None) (running linux_env))
       = log_entries (running linux_env)
           @ [(LogError, ''server process process exited with code:1 signal:null'')]
   \<and> serverProcessQuit (step linux_env (ChildClose 0 (Some 1) None) (running linux_env))
       = Some True
   \<and> is_true (intentionalQuit (quitServerProcess linux_env (running linux_env)))
   \<and> log_entries (step linux_env (ChildClose 0 None (Some ''SIGTERM''))
                     (quitServerProcess linux_env (running linux_env)))
       = log_entries (quitServerProcess linux_env (running linux_env))
           @ [(LogInfo, ''server process process exited with code:null signal:SIGTERM'')]"
  using
    server_on_close_classifies_exit [where code = "Some 1" and signal = None
      and st = "running linux_env" and i = 0 and env = linux_env]
    server_on_close_classifies_exit [where code = None and signal = "Some ''SIGTERM''"
      and st = "quitServerProcess linux_env (running linux_env)" and i = 0
      and env = linux_env]
  by (simp add: start_defs supervisor_run_defs quit_defs render_code_def
      render_signal_def render_number_def decimal_acc_one)

lemma indexOf_from_sublist: "indexOf_from i hay needle \<noteq> - 1 \<longleftrightarrow> sublist needle hay"
  by (induction hay arbitrary: i) (auto simp: sublist_Cons_right)

lemma stderr_condition:
  "chunk_truthy data \<and> has_indexOf data \<and> indexOf data (c # cs) \<noteq> - 1
     \<longleftrightarrow> sublist (c # cs) (chunk_text data)"
  by (cases data) (auto simp: indexOf_def indexOf_from_sublist)

text \<open>
  Claim C7. A chunk of the child's stderr is logged as information if its text contains
  \<open>Requesting\<close>, and as an error otherwise.
\<close>

theorem stderr_on_data_classifies:
  "stderr_on_data data st =
     st\<lparr>log_entries := log_entries st @
        [(if sublist ''Requesting'' (chunk_text data) then LogInfo else LogError,
          ''server process stderr: '' @ chunk_text data)]\<rparr>
   \<and> (i < length (sessions st) \<longrightarrow>
        step env (ChildStderr i data) st = stderr_on_data data st)"
  using stderr_condition [of data "CHR ''R''" "''equesting''"]
  by (simp add: stderr_on_data_def handler_defs
      del: chunk_truthy.simps has_indexOf.simps)

text \<open>The two chunks of the specification's example.\<close>

theorem stderr_on_data_classifies_witness:
  "0 < length (sessions (running linux_env))
   \<and> log_entries (step linux_env (ChildStderr 0 (BufferChunk ''Requesting: users''))
                     (running linux_env))
       = log_entries (running linux_env)
           @ [(LogInfo, ''server process stderr: Requesting: users'')]
   \<and> log_entries (step linux_env (ChildStderr 0 (BufferChunk ''connection refused''))
                     (running linux_env))
       = log_entries (running linux_env)
           @ [(LogError, ''server process stderr: connection refused'')]"
  using
    stderr_on_data_classifies [where data = "BufferChunk ''Requesting: users''"
      and st = "running linux_env" and i = 0 and env = linux_env]
    stderr_on_data_classifies [where data = "BufferChunk ''connection refused''"
      and st = "running linux_env" and i = 0 and env = linux_env]
  by (simp add: start_defs supervisor_run_defs sublist_Cons_right)

lemma startServer_spawn:
  "startServer env flags st =
     (spawn env (path_join env (resourcesPath env) ''./server'') flags
        \<lparr>shell = True, detached = (platform env \<noteq> ''win32'')\<rparr>,
      call (Spawn (path_join env (resourcesPath env) ''./server'') flags
              \<lparr>shell = True, detached = (platform env \<noteq> ''win32'')\<rparr>) st)"
  by (cases "platform env = ''win32''") (simp_all add: startServer_def Let_def)

lemmas window_defs = createWindow_def startServer_spawn attachServerEventHandlers_def
  handler_defs

lemma createWindow_sessions:
  "\<not> isDev st \<Longrightarrow>
   spawn env (path_join env (resourcesPath env) ''./server'') []
     \<lparr>shell = True, detached = (platform env \<noteq> ''win32'')\<rparr> = Inr p \<Longrightarrow>
   sessions (createWindow env st) = sessions st @ [(p, False)]
   \<and> serverProcess (createWindow env st) = Some p
   \<and> uncaught (createWindow env st) = uncaught st
   \<and> log_entries (createWindow env st) = log_entries st
   \<and> calls (createWindow env st)
       = calls st @ [NewBrowserWindow (windows_created st),
                     Spawn (path_join env (resourcesPath env) ''./server'') []
                       \<lparr>shell = True, detached = (platform env \<noteq> ''win32'')\<rparr>]"
  by (simp add: window_defs)

lemma createWindow_throws:
  "\<not> isDev st \<Longrightarrow>
   spawn env (path_join env (resourcesPath env) ''./server'') []
     \<lparr>shell = True, detached = (platform env \<noteq> ''win32'')\<rparr> = Inl e \<Longrightarrow>
   sessions (createWindow env st) = sessions st
   \<and> serverProcess (createWindow env st) = serverProcess st
   \<and> uncaught (createWindow env st) = uncaught st @ [e]"
  by (simp add: window_defs)

lemma createWindow_isDev:
  "isDev st \<Longrightarrow> sessions (createWindow env st) = sessions st"
  by (simp add: window_defs)

lemma map_fst_mark_closed:
  "i < length xs \<Longrightarrow> map fst (xs[i := (fst (xs ! i), b)]) = map fst xs"
  by (simp add: map_update list_update_same_conv)

lemma step_sessions:
  "map fst (sessions (step env ev st)) = map fst (sessions st)
     @ (if started st \<and> \<not> isDev st \<and> (ev = AppReady \<or> ev = Activate \<and> mainWindow st = WNull)
        then (case spawn env (path_join env (resourcesPath env) ''./server'') []
                     \<lparr>shell = True, detached = (platform env \<noteq> ''win32'')\<rparr> of
                Inl e \<Rightarrow> [] | Inr p \<Rightarrow> [p])
        else [])"
proof (cases ev)
  case AppReady
  then show ?thesis
    using createWindow_sessions [of st env] createWindow_throws [of st env]
      createWindow_isDev [of st env]
    by (auto split: sum.splits)
next
  case Activate
  then show ?thesis
    using createWindow_sessions [of st env] createWindow_throws [of st env]
      createWindow_isDev [of st env]
    by (auto split: sum.splits)
next
  case (ChildClose i code signal)
  then show ?thesis
    by (simp add: server_on_close_def handler_defs map_fst_mark_closed)
qed (simp_all add: quit_defs server_on_error_def stdout_on_data_def
      stderr_on_data_def handler_defs split: option.splits)

lemma main_sessions:
  "map fst (sessions (main env))
     = (if isHeadlessMode env
        then (case spawn env (path_join env (resourcesPath env) ''./server'')
                     [''-html-static-dir'', path_join env (resourcesPath env) ''./frontend'']
                     \<lparr>shell = True, detached = (platform env \<noteq> ''win32'')\<rparr> of
                Inl e \<Rightarrow> [] | Inr p \<Rightarrow> [p])
        else [])"
  by (simp add: main_def startElecron_def initial_state_def window_defs split: sum.splits)

lemma step_sessions_length:
  assumes "ev \<noteq> AppReady" and "ev \<noteq> Activate"
  shows "length (sessions (step env ev st)) = length (sessions st)"
proof -
  from assms step_sessions [of env ev st]
  have "map fst (sessions (step env ev st)) = map fst (sessions st)" by simp
  then have "length (map fst (sessions (step env ev st))) = length (map fst (sessions st))"
    by (rule arg_cong)
  then show ?thesis by simp
qed

lemma createWindow_first:
  "sessions st = [] \<Longrightarrow> windows_created st = 0 \<Longrightarrow>
   length (sessions (createWindow env st)) \<le> 1
   \<and> windows_created (createWindow env st) = 1
   \<and> mainWindow (createWindow env st) = Window 0
   \<and> started (createWindow env st) = started st"
  by (auto simp: window_defs split: sum.splits)

lemma step_keeps:
  "ev \<noteq> AppReady \<Longrightarrow> ev \<noteq> Activate \<Longrightarrow>
   windows_created (step env ev st) = windows_created st
   \<and> started (step env ev st) = started st
   \<and> (sessions st = [] \<longrightarrow> sessions (step env ev st) = [])
   \<and> (ev \<noteq> WindowClosed \<longrightarrow> mainWindow (step env ev st) = mainWindow st)"
  by (cases ev)
    (auto simp: quit_defs server_on_error_def stdout_on_data_def stderr_on_data_def
      server_on_close_def handler_defs split: option.splits)

lemma main_settled: "settled (launch env)"
  using main_sessions [of env] arg_cong [of "map fst (sessions (main env))" _ length]
  by (auto simp: settled_def launch_def main_def startElecron_def initial_state_def
      window_defs split: sum.splits if_splits)

lemma deliver_settled:
  assumes "settled rt"
  shows "settled (deliver env ev rt)"
proof (cases "ended rt")
  case True
  with assms show ?thesis by (cases ev) (simp_all add: quit_app_def)
next
  case running: False
  with assms have open_window: "mainWindow (app rt) \<noteq> WNull" and none_closed: "windows_closed rt = 0"
    by (simp_all add: settled_def)
  show ?thesis
  proof (cases ev)
    case AppReady
    show ?thesis
    proof (cases "ready_emitted rt \<or> \<not> started (app rt)")
      case True
      with AppReady running assms show ?thesis by (auto simp: settled_def)
    next
      case False
      with assms have "sessions (app rt) = []" "windows_created (app rt) = 0"
        by (simp_all add: settled_def)
      from createWindow_first [OF this, of env] False AppReady running none_closed
      show ?thesis by (simp add: settled_def)
    qed
  next
    case Activate
    with running open_window assms show ?thesis by (simp add: settled_def)
  next
    case WindowClosed
    show ?thesis
    proof (cases "windows_closed rt < windows_created (app rt)")
      case False
      with WindowClosed running assms show ?thesis by simp
    next
      case True
      with assms none_closed have one: "windows_created (app rt) = 1"
        by (simp add: settled_def)
      have ended: "ended (deliver env ev rt)"
        and app: "app (deliver env ev rt)
                    = step env Quit (step env WindowAllClosed (step env WindowClosed (app rt)))"
        using WindowClosed running True one none_closed
        by (simp_all add: quit_app_def Let_def)
      have emitted: "ready_emitted (deliver env ev rt) = ready_emitted rt"
        using WindowClosed running True one none_closed
        by (simp add: quit_app_def Let_def)
      have kept: "length (sessions (app (deliver env ev rt))) = length (sessions (app rt))"
        "windows_created (app (deliver env ev rt)) = windows_created (app rt)"
        "started (app (deliver env ev rt)) = started (app rt)"
        unfolding app by (simp_all add: step_sessions_length step_keeps del: step.simps)
      from assms one have "ready_emitted rt" and "started (app rt)"
        by (auto simp: settled_def)
      with assms ended emitted kept show ?thesis
        by (simp add: settled_def)
    qed
  next
    case WindowAllClosed
    with assms show ?thesis by simp
  next
    case Quit
    with running assms step_sessions_length [of Quit env "app rt"] step_keeps [of Quit env "app rt"]
    show ?thesis by (simp add: settled_def quit_app_def)
  next
    case (ChildError i err)
    with running assms step_sessions_length [of ev env "app rt"] step_keeps [of ev env "app rt"]
    show ?thesis by (simp add: settled_def)
  next
    case (ChildStdout i data)
    with running assms step_sessions_length [of ev env "app rt"] step_keeps [of ev env "app rt"]
    show ?thesis by (simp add: settled_def)
  next
    case (ChildStderr i data)
    with running assms step_sessions_length [of ev env "app rt"] step_keeps [of ev env "app rt"]
    show ?thesis by (simp add: settled_def)
  next
    case (ChildClose i code signal)
    with running assms step_sessions_length [of ev env "app rt"] step_keeps [of ev env "app rt"]
    show ?thesis by (simp add: settled_def)
  qed
qed

lemma lifetime_settled: "settled rt \<Longrightarrow> settled (lifetime evs rt)"
proof (induction evs arbitrary: rt)
  case Nil
  then show ?case by simp
next
  case (Cons e evs)
  obtain env ev where "e = (env, ev)" by (cases e)
  with Cons.IH [OF deliver_settled [OF Cons.prems, of env ev]] show ?case by simp
qed

lemma live_sessions_length: "length (live_sessions st) \<le> length (sessions st)"
  by (simp add: live_sessions_def)

text \<open>
  Claim C6. At every point of the application's lifetime at most one started process
  is live. A process is started only when none has been started before: once when the
  module is loaded in headless mode, or once by the window that \<open>ready\<close> makes. For when
  that window has closed, so that \<open>activate\<close> would make another, the application has
  quit.
\<close>

theorem at_most_one_session:
  "length (live_sessions (app (lifetime evs (launch env0)))) \<le> 1
   \<and> (length (sessions (app (lifetime evs (launch env0))))
        < length (sessions (app (deliver env ev (lifetime evs (launch env0))))) \<longrightarrow>
        sessions (app (lifetime evs (launch env0))) = [])"
proof -
  have now: "settled (lifetime evs (launch env0))"
    by (rule lifetime_settled [OF main_settled])
  have after: "settled (deliver env ev (lifetime evs (launch env0)))"
    by (rule deliver_settled [OF now])
  from now live_sessions_length [of "app (lifetime evs (launch env0))"]
  have "length (live_sessions (app (lifetime evs (launch env0)))) \<le> 1"
    by (simp add: settled_def)
  moreover have "sessions (app (lifetime evs (launch env0))) = []"
    if "length (sessions (app (lifetime evs (launch env0))))
          < length (sessions (app (deliver env ev (lifetime evs (launch env0)))))"
  proof -
    from after have "length (sessions (app (deliver env ev (lifetime evs (launch env0))))) \<le> 1"
      by (simp add: settled_def)
    with that have "length (sessions (app (lifetime evs (launch env0)))) = 0" by linarith
    then show ?thesis by simp
  qed
  ultimately show ?thesis by blast
qed

text \<open>
  The windowed application starts its server at \<open>ready\<close>. When the window has closed
  the application has quit: the server has been signalled, and neither \<open>activate\<close> nor a
  second \<open>ready\<close> starts another.
\<close>

theorem at_most_one_session_witness:
  "sessions (app (lifetime [] (launch linux_env))) = []
   \<and> sessions (app (deliver linux_env AppReady (lifetime [] (launch linux_env))))
       = [(\<lparr>pid = Some 4242\<rparr>, False)]
   \<and> ended (lifetime window_closed_run (launch linux_env))
   \<and> sessions (app (lifetime window_closed_run (launch linux_env)))
       = [(\<lparr>pid = Some 4242\<rparr>, False)]
   \<and> live_sessions (app (lifetime window_closed_run (launch linux_env)))
       = [\<lparr>pid = Some 4242\<rparr>]
   \<and> filter is_signal (calls (app (lifetime window_closed_run (launch linux_env))))
       = [ProcessKill (Some (- 4242)), ChildKill \<lparr>pid = Some 4242\<rparr>]"
proof -
  have at_ready: "sessions (app (lifetime [] (launch linux_env))) = []
      \<and> sessions (app (deliver linux_env AppReady (lifetime [] (launch linux_env))))
          = [(\<lparr>pid = Some 4242\<rparr>, False)]"
    by (simp add: launch_def start_defs supervisor_run_defs)
  have at_end: "ended (lifetime window_closed_run (launch linux_env))
      \<and> sessions (app (lifetime window_closed_run (launch linux_env)))
          = [(\<lparr>pid = Some 4242\<rparr>, False)]
      \<and> live_sessions (app (lifetime window_closed_run (launch linux_env)))
          = [\<lparr>pid = Some 4242\<rparr>]
      \<and> filter is_signal (calls (app (lifetime window_closed_run (launch linux_env))))
          = [ProcessKill (Some (- 4242)), ChildKill \<lparr>pid = Some 4242\<rparr>]"
    by (simp add: window_closed_run_def launch_def quit_app_def live_sessions_def start_defs
        supervisor_run_defs quit_defs stderr_on_data_def indexOf_def)
  show ?thesis
    using
      at_most_one_session [where evs = "[]" and ?env0.0 = linux_env and env = linux_env
        and ev = AppReady]
      at_most_one_session [where evs = window_closed_run and ?env0.0 = linux_env
        and env = linux_env and ev = Activate]
      at_ready at_end
    by blast
qed

text \<open>
  Claim C8, as the code has it. \<open>startServer\<close> gives its caller what \<open>spawn\<close> gives
  it: the handle, or the exception \<open>spawn\<close> throws, which nothing catches. A handle is
  kept as the server process whether or not a process runs behind it; a failure to start
  that is reported by the handle's \<open>error\<close> event is logged as an error, and that is all
  that happens.
\<close>

theorem spawn_failure_only_logged:
  fixes env :: process_env and st :: app_state
  defines "file \<equiv> path_join env (resourcesPath env) ''./server''"
    and "options \<equiv> \<lparr>shell = True, detached = (platform env \<noteq> ''win32'')\<rparr>"
  shows "fst (startServer env flags st) = spawn env file flags options
       \<and> (\<forall>p. started st \<and> \<not> isDev st \<and> spawn env file [] options = Inr p \<longrightarrow>
            serverProcess (step env AppReady st) = Some p
            \<and> uncaught (step env AppReady st) = uncaught st
            \<and> log_entries (step env AppReady st) = log_entries st)
       \<and> (\<forall>e. started st \<and> \<not> isDev st \<and> spawn env file [] options = Inl e \<longrightarrow>
            serverProcess (step env AppReady st) = serverProcess st
            \<and> uncaught (step env AppReady st) = uncaught st @ [e])
       \<and> server_on_error err st
           = st\<lparr>log_entries := log_entries st
                   @ [(LogError, ''server process failed to start: '' @ error_text err)]\<rparr>
       \<and> (i < length (sessions st) \<longrightarrow>
            step env (ChildError i err) st = server_on_error err st)"
  using createWindow_sessions [of st env] createWindow_throws [of st env]
  unfolding file_def options_def
  by (auto simp: startServer_spawn server_on_error_def handler_defs)

text \<open>
  A \<open>spawn\<close> that throws leaves an uncaught exception and no server process; one that
  starts the process leaves the handle; an \<open>error\<close> event adds one log entry.
\<close>

theorem spawn_failure_only_logged_witness:
  "started (main throwing_env) \<and> \<not> isDev (main throwing_env)
   \<and> spawn throwing_env (path_join throwing_env (resourcesPath throwing_env) ''./server'') []
        \<lparr>shell = True, detached = (platform throwing_env \<noteq> ''win32'')\<rparr>
       = Inl (JsError ''Error: spawn EPERM'')
   \<and> serverProcess (step throwing_env AppReady (main throwing_env)) = None
   \<and> uncaught (step throwing_env AppReady (main throwing_env)) = [JsError ''Error: spawn EPERM'']
   \<and> serverProcess (step linux_env AppReady (main linux_env)) = Some \<lparr>pid = Some 4242\<rparr>
   \<and> uncaught (step linux_env AppReady (main linux_env)) = []
   \<and> 0 < length (sessions (running linux_env))
   \<and> step linux_env (ChildError 0 spawn_ENOENT) (running linux_env)
       = (running linux_env)
           \<lparr>log_entries := [(LogInfo, ''App starting...''),
              (LogError, ''server process failed to start: Error: spawn /bin/sh ENOENT'')]\<rparr>"
  using
    spawn_failure_only_logged [where env = throwing_env and st = "main throwing_env"]
    spawn_failure_only_logged [where env = linux_env and st = "main linux_env"]
    spawn_failure_only_logged [where env = linux_env and st = "running linux_env"
      and i = 0 and err = spawn_ENOENT]
  by (simp add: start_defs supervisor_run_defs server_on_error_def)

text \<open>
  Claim C8 as it is worded fails where the process cannot be started and \<open>spawn\<close>
  reports it through the handle: \<open>startServer\<close> returns the handle, the caller keeps it
  as the server process, no exception is raised, and the \<open>error\<close> event that follows
  leaves a log entry and nothing else.
\<close>

theorem spawn_failure_not_surfaced_counterexample:
  "fst (startServer failing_env [] (main failing_env)) = Inr \<lparr>pid = None\<rparr>
   \<and> serverProcess (running failing_env) = Some \<lparr>pid = None\<rparr>
   \<and> uncaught (running failing_env) = []
   \<and> log_entries (running failing_env) = [(LogInfo, ''App starting...'')]
   \<and> step failing_env (ChildError 0 spawn_ENOENT) (running failing_env)
       = (running failing_env)
           \<lparr>log_entries := [(LogInfo, ''App starting...''),
              (LogError, ''server process failed to start: Error: spawn /bin/sh ENOENT'')]\<rparr>"
  by (simp add: start_defs supervisor_run_defs server_on_error_def)

section \<open>Properties of the renderer bridge\<close>

lemma array_includes_validChannels:
  "array_includes validChannels channel
     \<longleftrightarrow> channel \<in> {JStr ''update_available'', JStr ''locale'', JStr ''show_release_notes''}"
  by (auto simp: validChannels_def)

text \<open>
  Claim C10. \<open>send\<close> passes a message on, and \<open>receive\<close> registers a listener (which
  drops the event and hands the arguments to the callback), exactly when the channel is
  one of \<open>update_available\<close>, \<open>locale\<close> and \<open>show_release_notes\<close>; on any other channel
  neither does anything.
\<close>

theorem desktopApi_whitelist:
  fixes channel :: jsval and data :: jsval and func :: "jsval list \<Rightarrow> 'r"
  defines "listed \<equiv>
     channel \<in> {JStr ''update_available'', JStr ''locale'', JStr ''show_release_notes''}"
  shows "(desktopApi_send channel data :: 'r ipc_call list)
           = (if listed then [IpcSend channel data] else [])
       \<and> desktopApi_receive channel func
           = (if listed then [IpcOn channel (\<lambda>event args. func args)] else [])
       \<and> ((desktopApi_send channel data :: 'r ipc_call list) \<noteq> [] \<longleftrightarrow> listed)
       \<and> (desktopApi_receive channel func \<noteq> [] \<longleftrightarrow> listed)"
  unfolding listed_def
  by (simp add: desktopApi_send_def desktopApi_receive_def array_includes_validChannels)

text \<open>Two listed channels and two that are not.\<close>

theorem desktopApi_whitelist_witness:
  "(desktopApi_send (JStr ''locale'') (JStr ''de'') :: nat ipc_call list)
     = [IpcSend (JStr ''locale'') (JStr ''de'')]
   \<and> (desktopApi_send (JStr ''quit'') JNull :: nat ipc_call list) = []
   \<and> desktopApi_receive (JStr ''show_release_notes'') length
     = [IpcOn (JStr ''show_release_notes'') (\<lambda>event args. length args)]
   \<and> desktopApi_receive (JStr ''Locale'') length = []"
  using
    desktopApi_whitelist [where channel = "JStr ''locale''" and data = "JStr ''de''"
      and func = "length :: jsval list \<Rightarrow> nat"]
    desktopApi_whitelist [where channel = "JStr ''quit''" and data = JNull
      and func = "length :: jsval list \<Rightarrow> nat"]
    desktopApi_whitelist [where channel = "JStr ''show_release_notes''" and data = JNull
      and func = "length :: jsval list \<Rightarrow> nat"]
    desktopApi_whitelist [where channel = "JStr ''Locale''" and data = JNull
      and func = "length :: jsval list \<Rightarrow> nat"]
  by simp

end
